theory Spec2Isabelle
  imports Main
begin

section \<open>The Prusa MMU plugin: data model\<close>

text \<open>
  The development embeds \<^verbatim>\<open>octoprint_prusammu/__init__.py\<close>: the class
  \<^verbatim>\<open>PrusaMMUPlugin\<close> with its prompt handling, its navbar updater and its two G-code
  hooks. A method becomes a function from the instance's fields (the record \<open>plugin\<close>)
  to an outcome, the changed fields and the calls made on the collaborators
  (\<open>_printer\<close>, \<open>_plugin_manager\<close>, \<open>_settings\<close>), in the order the source makes them.
  A leading underscore of a Python name is dropped, since an Isabelle name starts with a
  letter. Calls of \<^verbatim>\<open>self._logger.info\<close> are left out: they only format strings that
  are always present and touch neither the fields nor a collaborator.
\<close>

subsection \<open>Python values\<close>

text \<open>
  The values that reach the plugin from a decoded JSON body and that it stores in
  \<^verbatim>\<open>mmuTool\<close>. A float carries no payload: the source only ever adds one to it for an
  error message. \<open>PyList\<close> and \<open>PyDict\<close> stand for any list and any dictionary.
\<close>

datatype pyval = PyNone | PyBool bool | PyInt int | PyFloat | PyStr string | PyList | PyDict

datatype error =
    Abort nat        \<comment> \<open>\<^verbatim>\<open>flask.abort(code, ...)\<close>, the HTTP status code\<close>
  | TypeError
  | KeyError
  | AttributeError
  | OverflowError

text \<open>\<^verbatim>\<open>isinstance(v, int)\<close>: in Python \<^verbatim>\<open>bool\<close> is a subclass of \<^verbatim>\<open>int\<close>.\<close>

fun isinstance_int :: "pyval \<Rightarrow> bool" where
  "isinstance_int (PyInt i) = True"
| "isinstance_int (PyBool b) = True"
| "isinstance_int v = False"

text \<open>The integer an instance of \<^verbatim>\<open>int\<close> compares as (\<^verbatim>\<open>True\<close> is 1, \<^verbatim>\<open>False\<close> is 0).\<close>

fun int_value :: "pyval \<Rightarrow> int" where
  "int_value (PyInt i) = i"
| "int_value (PyBool b) = (if b then 1 else 0)"
| "int_value v = 0"

text \<open>\<^verbatim>\<open>v + 1\<close>: defined on numbers, a \<^verbatim>\<open>TypeError\<close> on everything else.\<close>

fun add_one :: "pyval \<Rightarrow> error + pyval" where
  "add_one (PyInt i) = Inr (PyInt (i + 1))"
| "add_one (PyBool b) = Inr (PyInt ((if b then 1 else 0) + 1))"
| "add_one PyFloat = Inr PyFloat"
| "add_one v = Inl TypeError"

definition digit_char :: "nat \<Rightarrow> char" where
  "digit_char d = ''0123456789'' ! d"

fun str_nat :: "nat \<Rightarrow> string" where
  "str_nat n = (if n < 10 then [digit_char n] else str_nat (n div 10) @ [digit_char (n mod 10)])"

declare str_nat.simps [simp del]

definition str_int :: "int \<Rightarrow> string" where
  "str_int i = (if i < 0 then CHR ''-'' # str_nat (nat (- i)) else str_nat (nat i))"

text \<open>\<^verbatim>\<open>str(v)\<close> on the values the plugin applies it to (an accepted choice).\<close>

fun py_str :: "pyval \<Rightarrow> string" where
  "py_str (PyInt i) = str_int i"
| "py_str (PyBool b) = (if b then ''True'' else ''False'')"
| "py_str (PyStr s) = s"
| "py_str PyNone = ''None''"
| "py_str v = []"

text \<open>
  \<^verbatim>\<open>float(v)\<close> on what \<^verbatim>\<open>_timeout\<close> can hold, an int or \<^verbatim>\<open>None\<close> (which
  \<^verbatim>\<open>_settings.get_int\<close> answers for a value that is no integer). A float made from an
  int is a whole number, so it is kept as the int it equals: the int itself below
  \<open>2 ^ 53\<close>, else the int rounded to 53 significant bits, a tie going to the even
  neighbour, and \<^verbatim>\<open>OverflowError\<close> when the rounded value reaches \<open>2 ^ 1024\<close>.
  \<^verbatim>\<open>float(None)\<close> raises \<^verbatim>\<open>TypeError\<close>.
\<close>

fun bit_length :: "nat \<Rightarrow> nat" where
  "bit_length n = (if n = 0 then 0 else Suc (bit_length (n div 2)))"

declare bit_length.simps [simp del]

definition float_of_int :: "int \<Rightarrow> error + int" where
  "float_of_int n =
     (let m = nat \<bar>n\<bar>
      in if m < 2 ^ 53 then Inr n
         else
           (let e = bit_length m - 53;
                q = m div 2 ^ e;
                r = m mod 2 ^ e;
                q' = (if 2 ^ e < 2 * r \<or> (2 * r = 2 ^ e \<and> odd q) then q + 1 else q);
                v = q' * 2 ^ e
            in if 2 ^ 1024 \<le> v then Inl OverflowError else Inr (sgn n * int v)))"

fun py_float :: "int option \<Rightarrow> error + int" where
  "py_float None = Inl TypeError"
| "py_float (Some n) = float_of_int n"

text \<open>\<^verbatim>\<open>s.startswith(p)\<close> and \<^verbatim>\<open>sub in s\<close> on strings.\<close>

definition startswith :: "string \<Rightarrow> string \<Rightarrow> bool" where
  "startswith s p = (take (length p) s = p)"

fun contains :: "string \<Rightarrow> string \<Rightarrow> bool" where
  "contains [] sub = (sub = [])"
| "contains (c # cs) sub = (startswith (c # cs) sub \<or> contains cs sub)"

subsection \<open>The instance and its collaborators\<close>

text \<open>
  \<^verbatim>\<open>threading.Timer\<close>: the interval it was created with (the value of the float) and
  its \<open>finished\<close> event, which \<^verbatim>\<open>cancel()\<close> sets.
\<close>

datatype timer = Timer (interval: int) (finished: bool)

fun cancel :: "timer \<Rightarrow> timer" where
  "cancel (Timer i f) = Timer i True"

record plugin =
  active :: bool
  selectedFilament :: "string option"
  filamentChangeTriggered :: bool
  timer :: "timer option"
  mmuState :: string
  mmuTool :: pyval
  timeout :: "int option"
  useDefaultFilament :: bool
  displayActiveFilament :: bool
  defaultFilament :: int

definition DEFAULT_TIMEOUT :: int where
  "DEFAULT_TIMEOUT = 30"

definition TAG_PREFIX :: string where
  "TAG_PREFIX = ''prusaMMUPlugin:''"

definition TIMEOUT_TAG :: string where
  "TIMEOUT_TAG = TAG_PREFIX @ ''timeout''"

text \<open>\<^verbatim>\<open>__init__\<close>\<close>

definition init :: plugin where
  "init = \<lparr> active = False, selectedFilament = None, filamentChangeTriggered = False,
            timer = None, mmuState = ''OK'', mmuTool = PyStr [],
            timeout = Some DEFAULT_TIMEOUT, useDefaultFilament = False,
            displayActiveFilament = False, defaultFilament = 1 \<rparr>"

text \<open>
  The calls on the collaborators. \<open>Notify\<close> is
  \<^verbatim>\<open>_plugin_manager.send_plugin_message(_identifier, dict(action=...))\<close>,
  \<open>SendCommand\<close> is \<^verbatim>\<open>_printer.commands(cmd, tags=...)\<close>, \<open>SetHold\<close> is
  \<^verbatim>\<open>_printer.set_job_on_hold(value)\<close>, \<open>SettingsSet\<close> and \<open>SettingsSave\<close> are
  \<^verbatim>\<open>_settings.set(key, value)\<close> and \<^verbatim>\<open>_settings.save()\<close>.
\<close>

datatype action = Show | Close | Nav (tool: pyval) (state: string)

datatype event =
    Notify action
  | SendCommand string "string set"
  | SetHold bool
  | SettingsSet string pyval
  | SettingsSave

text \<open>
  What a method hands back: the value it returns or the exception it raises, the fields
  as it leaves them, and the calls it made.
\<close>

type_synonym 'a outcome = "(error + 'a) \<times> plugin \<times> event list"

section \<open>Prompt\<close>

text \<open>
  \<^verbatim>\<open>_show_prompt\<close>: \<^verbatim>\<open>_active\<close> is set first; then \<^verbatim>\<open>float(self._timeout)\<close> is
  computed for the timer, and when it raises the method is left with \<^verbatim>\<open>_active\<close> set,
  the old \<^verbatim>\<open>_timer\<close> in place and no notification sent. The timer's thread is taken to
  start.
\<close>

definition show_prompt :: "plugin \<Rightarrow> unit outcome" where
  "show_prompt s =
     (let s1 = s\<lparr> active := True \<rparr>
      in case py_float (timeout s1) of
           Inl e \<Rightarrow> (Inl e, s1, [])
         | Inr iv \<Rightarrow> (Inr (), s1\<lparr> timer := Some (Timer iv False) \<rparr>, [Notify Show]))"

text \<open>
  \<^verbatim>\<open>_clean_up_prompt\<close>: \<^verbatim>\<open>self._timer.cancel()\<close> raises \<^verbatim>\<open>AttributeError\<close> while
  \<^verbatim>\<open>_timer\<close> is still \<^verbatim>\<open>None\<close>, before anything else is done.
\<close>

definition clean_up_prompt :: "plugin \<Rightarrow> unit outcome" where
  "clean_up_prompt s =
     (case timer s of
        None \<Rightarrow> (Inl AttributeError, s, [])
      | Some t \<Rightarrow>
          (Inr (), s\<lparr> timer := Some (cancel t), active := False \<rparr>,
           [Notify Close, SetHold False]))"

text \<open>\<^verbatim>\<open>_timeout_prompt\<close>, the function the timer runs.\<close>

definition timeout_prompt :: "plugin \<Rightarrow> unit outcome" where
  "timeout_prompt s =
     (case clean_up_prompt s of
        (r, s', ev) \<Rightarrow> (r, s', SendCommand ''Tx'' {TIMEOUT_TAG} # ev))"

text \<open>\<^verbatim>\<open>_done_prompt\<close>\<close>

definition done_prompt :: "plugin \<Rightarrow> string \<Rightarrow> unit outcome" where
  "done_prompt s command =
     clean_up_prompt (s\<lparr> selectedFilament := Some command, filamentChangeTriggered := True \<rparr>)"

section \<open>SimpleApiPlugin\<close>

text \<open>
  \<^verbatim>\<open>on_api_command\<close>. \<open>can\<close> is what \<^verbatim>\<open>user_permission.can()\<close> answers, \<open>data\<close> the
  decoded request body. A command other than \<^verbatim>\<open>select\<close> falls through and returns.
\<close>

definition on_api_command :: "plugin \<Rightarrow> string \<Rightarrow> (string \<rightharpoonup> pyval) \<Rightarrow> bool \<Rightarrow> unit outcome" where
  "on_api_command s command data can =
     (if command = ''select'' then
        if \<not> can then (Inl (Abort 403), s, [])
        else if active s = False then (Inl (Abort 409), s, [])
        else
          (case data ''choice'' of
             None \<Rightarrow> (Inl KeyError, s, [])
           | Some choice \<Rightarrow>
               if \<not> isinstance_int choice \<or> \<not> int_value choice < 5 \<or> \<not> int_value choice \<ge> 0
               then (case add_one choice of
                       Inl e \<Rightarrow> (Inl e, s, [])
                     | Inr v \<Rightarrow> (Inl (Abort 400), s, []))
               else done_prompt (s\<lparr> mmuTool := choice \<rparr>) (''T'' @ py_str choice))
      else (Inr (), s, []))"

section \<open>Nav updater\<close>

text \<open>
  \<^verbatim>\<open>_update_nav\<close>. The three settings calls sit in a \<^verbatim>\<open>try\<close> whose handler only logs;
  \<open>settings_fault\<close> says which of them raises, if any. The calls before the raising one
  have been made.
\<close>

datatype settings_fault = NoFault | FaultOnSetState | FaultOnSetTool | FaultOnSave

fun persist :: "plugin \<Rightarrow> settings_fault \<Rightarrow> event list" where
  "persist s FaultOnSetState = []"
| "persist s FaultOnSetTool = [SettingsSet ''mmuState'' (PyStr (mmuState s))]"
| "persist s FaultOnSave =
     [SettingsSet ''mmuState'' (PyStr (mmuState s)), SettingsSet ''mmuTool'' (mmuTool s)]"
| "persist s NoFault =
     [SettingsSet ''mmuState'' (PyStr (mmuState s)), SettingsSet ''mmuTool'' (mmuTool s),
      SettingsSave]"

definition update_nav :: "plugin \<Rightarrow> string \<Rightarrow> settings_fault \<Rightarrow> plugin \<times> event list" where
  "update_nav s st fault =
     (if st = mmuState s then (s, [])
      else
        (let s' = s\<lparr> mmuState := st \<rparr>
         in (s', persist s' fault @ [Notify (Nav (mmuTool s') (mmuState s'))])))"

section \<open>Hooks\<close>

text \<open>
  What \<^verbatim>\<open>gcode_queuing_hook\<close> returns: \<^verbatim>\<open>None\<close> leaves the command as it is
  (\<open>PassThrough\<close>), the tuple \<^verbatim>\<open>(None,)\<close> drops it (\<open>Suppress\<close>), and the list
  \<^verbatim>\<open>[(cmd,), (tool_cmd,)]\<close> replaces it by the listed commands (\<open>Rewrite\<close>).
\<close>

datatype gate_result = PassThrough | Suppress | Rewrite "string list"

text \<open>
  \<^verbatim>\<open>gcode_queuing_hook\<close>. \<open>tags\<close> is \<open>None\<close> for Python's \<^verbatim>\<open>None\<close>, the declared
  default of the parameter; \<open>hold\<close> is what \<^verbatim>\<open>_printer.set_job_on_hold(True)\<close> answers.
  An exception of \<^verbatim>\<open>_show_prompt\<close> leaves the hook with the hold taken.
\<close>

definition gcode_queuing_hook ::
  "plugin \<Rightarrow> string \<Rightarrow> string set option \<Rightarrow> bool \<Rightarrow> gate_result outcome" where
  "gcode_queuing_hook s cmd tags hold =
     (if \<not> startswith cmd ''Tx'' \<and> \<not> startswith cmd ''M109'' then (Inr PassThrough, s, [])
      else
        (case tags of
           None \<Rightarrow> (Inl TypeError, s, [])
         | Some ts \<Rightarrow>
             if TIMEOUT_TAG \<in> ts then (Inr PassThrough, s, [])
             else if startswith cmd ''M109'' then
               (case selectedFilament s of
                  None \<Rightarrow> (Inr PassThrough, s, [])
                | Some tool_cmd \<Rightarrow>
                    if filamentChangeTriggered s then
                      (Inr (Rewrite [cmd, tool_cmd]),
                       s\<lparr> mmuTool := PyStr tool_cmd, selectedFilament := None,
                          filamentChangeTriggered := False \<rparr>,
                       [])
                    else (Inr PassThrough, s, []))
             else if startswith cmd ''Tx'' then
               (if hold then
                  (case show_prompt s of
                     (Inl e, s', ev) \<Rightarrow> (Inl e, s', SetHold True # ev)
                   | (Inr u, s', ev) \<Rightarrow> (Inr Suppress, s', SetHold True # ev))
                else (Inr Suppress, s, [SetHold True]))
             else (Inr Suppress, s, [])))"

text \<open>
  \<^verbatim>\<open>gcode_received_hook\<close>: the line it returns, the fields and the calls made.
\<close>

definition gcode_received_hook ::
  "plugin \<Rightarrow> string \<Rightarrow> settings_fault \<Rightarrow> string \<times> plugin \<times> event list" where
  "gcode_received_hook s line fault =
     (if contains line ''paused for user'' then (line, update_nav s ''PAUSED_USER'' fault)
      else if contains line ''MMU not responding'' then (line, update_nav s ''ATTENTION'' fault)
      else if contains line ''MMU - ENABLED'' then (line, update_nav s ''OK'' fault)
      else if contains line ''MMU starts responding'' then (line, update_nav s ''OK'' fault)
      else if contains line ''Unloading finished'' then (line, update_nav s ''UNLOADING'' fault)
      else if contains line ''MMU can_load'' then (line, update_nav s ''LOADING'' fault)
      else if contains line ''OO succeeded'' then (line, update_nav s ''LOADED'' fault)
      else (line, s, []))"

section \<open>Scenarios\<close>

text \<open>
  The commands the lower layer goes on to send for one queued command, as the host
  composes them from the hook's answer: the command itself for \<^verbatim>\<open>None\<close> (and when the
  hook raised, which the host only logs), nothing for \<^verbatim>\<open>(None,)\<close>, the listed commands
  for a list.
\<close>

fun outbound :: "string \<Rightarrow> error + gate_result \<Rightarrow> string list" where
  "outbound cmd (Inr PassThrough) = [cmd]"
| "outbound cmd (Inr Suppress) = []"
| "outbound cmd (Inr (Rewrite cs)) = cs"
| "outbound cmd (Inl e) = [cmd]"

text \<open>
  The events that reach the plugin: a received firmware line, a command about to be
  queued, and the \<^verbatim>\<open>select\<close> API command. Each carries what the collaborators answer
  during the call.
\<close>

datatype input =
    Line string settings_fault
  | Outbound string "string set option" bool
  | Select "string \<rightharpoonup> pyval" bool

text \<open>A run keeps the fields, every call made so far and every command sent on so far.\<close>

fun step :: "plugin \<times> event list \<times> string list \<Rightarrow> input \<Rightarrow> plugin \<times> event list \<times> string list" where
  "step (s, evs, out) (Line l fault) =
     (case gcode_received_hook s l fault of (l', s', ev) \<Rightarrow> (s', evs @ ev, out))"
| "step (s, evs, out) (Outbound cmd tags hold) =
     (case gcode_queuing_hook s cmd tags hold of
        (r, s', ev) \<Rightarrow> (s', evs @ ev, out @ outbound cmd r))"
| "step (s, evs, out) (Select data can) =
     (case on_api_command s ''select'' data can of (r, s', ev) \<Rightarrow> (s', evs @ ev, out))"

definition run :: "plugin \<Rightarrow> input list \<Rightarrow> plugin \<times> event list \<times> string list" where
  "run s ins = foldl step (s, [], []) ins"

section \<open>The classifier as the specification words it\<close>

text \<open>
  The specification describes the line classifier as a table of patterns tried in a
  fixed order, the first pattern contained in the line giving the status.
\<close>

definition spec_classifier_table :: "(string \<times> string) list" where
  "spec_classifier_table =
     [(''paused for user'', ''PAUSED_USER''),
      (''MMU not responding'', ''ATTENTION''),
      (''MMU - ENABLED'', ''OK''),
      (''MMU starts responding'', ''OK''),
      (''Unloading finished'', ''UNLOADING''),
      (''MMU can_load'', ''LOADING''),
      (''OO succeeded'', ''LOADED'')]"

fun spec_first_match :: "(string \<times> string) list \<Rightarrow> string \<Rightarrow> string option" where
  "spec_first_match [] line = None"
| "spec_first_match ((pat, st) # rest) line =
     (if contains line pat then Some st else spec_first_match rest line)"

definition spec_classify :: "string \<Rightarrow> string option" where
  "spec_classify line = spec_first_match spec_classifier_table line"

section \<open>Reading a list of calls\<close>

text \<open>The commands sent, the notifications and the settings calls among a list of calls.\<close>

fun sent_commands :: "event list \<Rightarrow> (string \<times> string set) list" where
  "sent_commands [] = []"
| "sent_commands (SendCommand c tg # es) = (c, tg) # sent_commands es"
| "sent_commands (e # es) = sent_commands es"

fun notifications :: "event list \<Rightarrow> action list" where
  "notifications [] = []"
| "notifications (Notify a # es) = a # notifications es"
| "notifications (e # es) = notifications es"

fun settings_calls :: "event list \<Rightarrow> event list" where
  "settings_calls [] = []"
| "settings_calls (SettingsSet k v # es) = SettingsSet k v # settings_calls es"
| "settings_calls (SettingsSave # es) = SettingsSave # settings_calls es"
| "settings_calls (e # es) = settings_calls es"

text \<open>
  The instance once a prompt opened from \<open>init\<close> by a \<^verbatim>\<open>Tx\<close> command has been
  answered with the choice \<open>i\<close>, and the instance with the prompt still open.
\<close>

definition prompt_open :: plugin where
  "prompt_open = init\<lparr> active := True, timer := Some (Timer 30 False) \<rparr>"

definition chosen :: "int \<Rightarrow> plugin" where
  "chosen i = init\<lparr> active := False, timer := Some (Timer 30 True), mmuTool := PyInt i,
                     selectedFilament := Some (''T'' @ str_int i),
                     filamentChangeTriggered := True \<rparr>"

definition tx :: input where
  "tx = Outbound ''Tx'' (Some {}) True"

definition select_tool :: "int \<Rightarrow> input" where
  "select_tool i = Select [''choice'' \<mapsto> PyInt i] True"

section \<open>Basic facts\<close>

lemma str_nat_small: "n < 10 \<Longrightarrow> str_nat n = [digit_char n]"
  by (simp add: str_nat.simps)

lemma str_int_digits:
  "str_int 0 = ''0''" "str_int 1 = ''1''" "str_int 2 = ''2''" "str_int 3 = ''3''" "str_int 4 = ''4''"
  by (simp_all add: str_int_def str_nat_small digit_char_def)

text \<open>The float of an int below \<open>2 ^ 53\<close> in magnitude is the int.\<close>

lemma float_of_int_small: "\<bar>n\<bar> < 2 ^ 53 \<Longrightarrow> float_of_int n = Inr n"
proof -
  assume "\<bar>n\<bar> < 2 ^ 53"
  then have "nat \<bar>n\<bar> < 2 ^ 53" by simp
  then show ?thesis by (simp add: float_of_int_def Let_def)
qed

lemma float_of_default: "float_of_int DEFAULT_TIMEOUT = Inr 30"
  by (simp add: float_of_int_small DEFAULT_TIMEOUT_def)

text \<open>
  The number of bits of a positive number, and with it the two ends of the float's
  range: an int of magnitude \<open>2 ^ 1024\<close> or more has no float, and \<open>2 ^ 53 + 1\<close>, a
  tie, is rounded to \<open>2 ^ 53\<close>.
\<close>

lemma bit_length_Suc: "n \<noteq> 0 \<Longrightarrow> bit_length n = Suc (bit_length (n div 2))"
  by (subst bit_length.simps) simp

lemma bit_length_0: "bit_length 0 = 0"
  by (subst bit_length.simps) simp

lemma bit_length_bounds: "0 < m \<Longrightarrow> 2 ^ (bit_length m - 1) \<le> m \<and> m < 2 ^ bit_length m"
proof (induction m rule: bit_length.induct)
  case (1 n)
  from 1(2) have n: "n \<noteq> 0" by simp
  note bl = bit_length_Suc [OF n]
  show ?case
  proof (cases "n div 2 = 0")
    case True
    with n have "n = 1" by (cases n) auto
    then show ?thesis by (simp add: bit_length_Suc bit_length_0)
  next
    case False
    then have pos: "0 < n div 2" by simp
    from 1(1) [OF n pos]
    have ih: "2 ^ (bit_length (n div 2) - 1) \<le> n div 2" "n div 2 < 2 ^ bit_length (n div 2)"
      by simp_all
    have b: "bit_length (n div 2) \<noteq> 0"
    proof
      assume "bit_length (n div 2) = 0"
      with ih(2) pos show False by simp
    qed
    then obtain k where k: "bit_length (n div 2) = Suc k" by (cases "bit_length (n div 2)") auto
    from ih k have l: "2 ^ k \<le> n div 2" and u: "n div 2 < 2 * 2 ^ k" by simp_all
    from l have "2 * 2 ^ k \<le> n" by arith
    moreover from u have "n < 2 * (2 * 2 ^ k)" by arith
    ultimately show ?thesis by (simp add: bl k)
  qed
qed

lemma float_of_int_overflow:
  assumes big: "2 ^ 1024 \<le> \<bar>n\<bar>"
  shows "float_of_int n = Inl OverflowError"
proof -
  define m where "m = nat \<bar>n\<bar>"
  define e where "e = bit_length m - 53"
  define q where "q = m div 2 ^ e"
  define r where "r = m mod 2 ^ e"
  define q' where "q' = (if 2 ^ e < 2 * r \<or> (2 * r = 2 ^ e \<and> odd q) then q + 1 else q)"
  from big have "(2::int) ^ 1024 \<le> int m" by (simp add: m_def)
  then have m: "(2::nat) ^ 1024 \<le> m"
    by (metis of_nat_le_iff of_nat_numeral of_nat_power)
  then have pos: "0 < m"
    by (meson less_le_trans zero_less_numeral zero_less_power)
  from bit_length_bounds [OF pos]
  have lo: "2 ^ (bit_length m - 1) \<le> m" and hi: "m < 2 ^ bit_length m" by simp_all
  from m hi have "(2::nat) ^ 1024 < 2 ^ bit_length m" by (rule le_less_trans)
  then have b: "1024 < bit_length m" by (rule power_less_imp_less_exp [rotated]) simp
  then have eq: "bit_length m - 1 = e + 52" by (simp add: e_def)
  have split: "(2::nat) ^ (bit_length m - 1) = 2 ^ e * 2 ^ 52"
    unfolding eq by (rule power_add)
  have "(2::nat) ^ e * 2 ^ 52 div 2 ^ e \<le> q"
    unfolding q_def using lo split by (intro div_le_mono) simp
  then have q: "(2::nat) ^ 52 \<le> q" by simp
  have "q \<le> q'" by (simp add: q'_def)
  with q have q52: "(2::nat) ^ 52 \<le> q'" by (rule le_trans)
  have s2: "(2::nat) ^ (bit_length m - 1) = 2 ^ 52 * 2 ^ e"
    unfolding split by (rule mult.commute)
  have v1: "(2::nat) ^ (bit_length m - 1) \<le> q' * 2 ^ e"
    unfolding s2 using q52 by (rule mult_le_mono1)
  from b have "(2::nat) ^ 1024 \<le> 2 ^ (bit_length m - 1)"
    by (intro power_increasing) simp_all
  with v1 have v: "(2::nat) ^ 1024 \<le> q' * 2 ^ e" by (rule le_trans [rotated])
  have "(2::nat) ^ 53 \<le> 2 ^ 1024" by (intro power_increasing) simp_all
  with m have nm: "\<not> m < 2 ^ 53" by (meson le_trans not_less)
  show ?thesis
    unfolding float_of_int_def Let_def
    using nm v
    unfolding m_def e_def q_def r_def q'_def
    by (simp only: if_False if_True)
qed

lemma bit_length_unique:
  assumes "2 ^ k \<le> m" and "m < 2 ^ Suc k"
  shows "bit_length m = Suc k"
proof -
  from assms(1) have pos: "0 < m"
    by (meson less_le_trans zero_less_numeral zero_less_power)
  from bit_length_bounds [OF pos]
  have lo: "2 ^ (bit_length m - 1) \<le> m" and hi: "m < 2 ^ bit_length m" by simp_all
  from assms(1) hi have "(2::nat) ^ k < 2 ^ bit_length m" by (rule le_less_trans)
  then have 1: "k < bit_length m" by (rule power_less_imp_less_exp [rotated]) simp
  from lo assms(2) have "(2::nat) ^ (bit_length m - 1) < 2 ^ Suc k" by (rule le_less_trans)
  then have 2: "bit_length m - 1 < Suc k" by (rule power_less_imp_less_exp [rotated]) simp
  from 1 2 show ?thesis by arith
qed

lemma float_of_int_tie: "float_of_int (2 ^ 53 + 1) = Inr (2 ^ 53)"
proof -
  have b: "bit_length (2 ^ 53 + 1) = 54"
    using bit_length_unique [of 53 "2 ^ 53 + 1"] by simp
  have n: "nat \<bar>2 ^ 53 + 1 :: int\<bar> = 2 ^ 53 + 1" by simp
  show ?thesis
    unfolding float_of_int_def Let_def n b by simp
qed

lemma startswith_iff: "startswith s p \<longleftrightarrow> (\<exists>ss. s = p @ ss)"
  unfolding startswith_def by (metis append_eq_conv_conj append_take_drop_id)

text \<open>\<open>contains\<close> is substring containment.\<close>

lemma contains_iff: "contains s sub \<longleftrightarrow> (\<exists>ps ss. s = ps @ sub @ ss)"
proof (induction s)
  case Nil
  show ?case by auto
next
  case (Cons c cs)
  have "(\<exists>ps ss. c # cs = ps @ sub @ ss) \<longleftrightarrow>
        (\<exists>ss. c # cs = sub @ ss) \<or> (\<exists>ps ss. cs = ps @ sub @ ss)"
  proof
    assume "\<exists>ps ss. c # cs = ps @ sub @ ss"
    then obtain ps ss where e: "c # cs = ps @ sub @ ss" by blast
    show "(\<exists>ss. c # cs = sub @ ss) \<or> (\<exists>ps ss. cs = ps @ sub @ ss)"
    proof (cases ps)
      case Nil
      with e show ?thesis by auto
    next
      case (Cons p ps')
      with e have "cs = ps' @ sub @ ss" by simp
      then show ?thesis by blast
    qed
  next
    assume "(\<exists>ss. c # cs = sub @ ss) \<or> (\<exists>ps ss. cs = ps @ sub @ ss)"
    then show "\<exists>ps ss. c # cs = ps @ sub @ ss"
    proof
      assume "\<exists>ss. c # cs = sub @ ss"
      then obtain ss where "c # cs = [] @ sub @ ss" by auto
      then show ?thesis by blast
    next
      assume "\<exists>ps ss. cs = ps @ sub @ ss"
      then obtain ps ss where "cs = ps @ sub @ ss" by blast
      then have "c # cs = (c # ps) @ sub @ ss" by simp
      then show ?thesis by blast
    qed
  qed
  with Cons show ?case by (simp add: startswith_iff)
qed

lemma startswith_Tx_not_M109: "startswith cmd ''Tx'' \<Longrightarrow> \<not> startswith cmd ''M109''"
  by (cases cmd) (auto simp: startswith_def)

lemma timeout_tag_value: "TIMEOUT_TAG = ''prusaMMUPlugin:timeout''"
  by (simp add: TIMEOUT_TAG_def TAG_PREFIX_def)

text \<open>A \<^verbatim>\<open>Tx\<close> command on the fresh instance opens the prompt when the hold is granted.\<close>

lemma run_tx:
  "run init [tx] = (prompt_open, [SetHold True, Notify Show], [])"
  by (simp add: run_def tx_def gcode_queuing_hook_def show_prompt_def startswith_def
      timeout_tag_value init_def prompt_open_def float_of_default)

text \<open>An accepted choice on the open prompt records the selection and closes the prompt.\<close>

lemma choose_on_open:
  assumes "0 \<le> i" and "i < 5"
  shows "on_api_command prompt_open ''select'' [''choice'' \<mapsto> PyInt i] True =
           (Inr (), chosen i, [Notify Close, SetHold False])"
  using assms
  by (simp add: on_api_command_def done_prompt_def clean_up_prompt_def prompt_open_def
      chosen_def init_def)

lemma run_tx_choose:
  assumes "0 \<le> i" and "i < 5"
  shows "run init [tx, select_tool i] =
           (chosen i, [SetHold True, Notify Show, Notify Close, SetHold False], [])"
proof -
  have "run init [tx, select_tool i] = step (run init [tx]) (select_tool i)"
    by (simp add: run_def)
  then show ?thesis
    by (simp add: run_tx select_tool_def choose_on_open [OF assms])
qed

section \<open>The command gate\<close>

text \<open>
  Claim C1 (as amended). Whenever a user choice of tool \<open>t\<close> is pending (the selected
  filament \<^verbatim>\<open>"T"+str(t)\<close> is recorded and the filament-change flag is set), an outbound
  command that starts with \<^verbatim>\<open>M109\<close> and whose tags are a collection that does not hold
  the timeout tag is answered with the rewrite to the original command followed by
  \<^verbatim>\<open>"T"+str(t)\<close>, with no call made; the recorded selection and the flag are cleared
  and every field other than \<^verbatim>\<open>mmuTool\<close> is left as it was. Any further \<^verbatim>\<open>M109\<close>
  command, its tags again a collection, is then passed through with nothing changed, so
  one resolution gives exactly one rewrite. What the rewrite stores in \<^verbatim>\<open>mmuTool\<close> is
  not part of this statement.
\<close>

theorem gate_rewrites_once:
  assumes "selectedFilament s = Some (''T'' @ str_int t)"
    and "filamentChangeTriggered s"
    and "startswith cmd ''M109''" and "TIMEOUT_TAG \<notin> ts"
    and "startswith cmd2 ''M109''"
  shows "\<exists>s'. gcode_queuing_hook s cmd (Some ts) hold =
                 (Inr (Rewrite [cmd, ''T'' @ str_int t]), s', [])
       \<and> selectedFilament s' = None \<and> \<not> filamentChangeTriggered s'
       \<and> s'\<lparr> mmuTool := mmuTool s \<rparr> =
           s\<lparr> selectedFilament := None, filamentChangeTriggered := False \<rparr>
       \<and> gcode_queuing_hook s' cmd2 (Some ts2) hold2 = (Inr PassThrough, s', [])"
  using assms by (simp add: gcode_queuing_hook_def)

text \<open>
  The instance at hand is the one the specification tests: a \<^verbatim>\<open>Tx\<close> command followed
  by the choice 2, then two \<^verbatim>\<open>M109\<close> commands.
\<close>

theorem gate_rewrites_once_witness:
  "selectedFilament (fst (run init [tx, select_tool 2])) = Some ''T2''
   \<and> filamentChangeTriggered (fst (run init [tx, select_tool 2]))
   \<and> startswith ''M109 S215'' ''M109'' \<and> TIMEOUT_TAG \<notin> {}
   \<and> fst (gcode_queuing_hook (fst (run init [tx, select_tool 2])) ''M109 S215'' (Some {}) True) =
        Inr (Rewrite [''M109 S215'', ''T2''])
   \<and> selectedFilament
        (fst (snd (gcode_queuing_hook (fst (run init [tx, select_tool 2]))
           ''M109 S215'' (Some {}) True))) = None
   \<and> fst (gcode_queuing_hook
        (fst (snd (gcode_queuing_hook (fst (run init [tx, select_tool 2]))
           ''M109 S215'' (Some {}) True)))
        ''M109 S210'' (Some {}) True) = Inr PassThrough"
proof -
  have r: "fst (run init [tx, select_tool 2]) = chosen 2"
    by (simp add: run_tx_choose)
  have h: "selectedFilament (chosen 2) = Some (''T'' @ str_int 2)"
    "filamentChangeTriggered (chosen 2)"
    "startswith ''M109 S215'' ''M109''" "TIMEOUT_TAG \<notin> {}" "startswith ''M109 S210'' ''M109''"
    by (simp_all add: chosen_def startswith_def)
  from gate_rewrites_once [OF h, of True "{}" True]
  obtain s' where s': "gcode_queuing_hook (chosen 2) ''M109 S215'' (Some {}) True =
                 (Inr (Rewrite [''M109 S215'', ''T'' @ str_int 2]), s', [])"
    "selectedFilament s' = None"
    "gcode_queuing_hook s' ''M109 S210'' (Some {}) True = (Inr PassThrough, s', [])"
    by blast
  from s' h r show ?thesis by (simp add: str_int_digits)
qed

text \<open>
  Against claim C1 as stated: on the instance that holds the choice 2, the \<^verbatim>\<open>M109\<close>
  command with \<^verbatim>\<open>tags=None\<close>, which carries no timeout tag, is answered with
  \<^verbatim>\<open>TypeError\<close> and no rewrite; and the rewrite leaves \<^verbatim>\<open>mmuTool\<close> holding the
  string \<^verbatim>\<open>"T2"\<close>, not the tool index 2.
\<close>

theorem gate_rewrite_counterexample:
  "gcode_queuing_hook (chosen 2) ''M109 S215'' None True = (Inl TypeError, chosen 2, [])
   \<and> mmuTool (fst (snd (gcode_queuing_hook (chosen 2) ''M109 S215'' (Some {}) True))) =
       PyStr ''T2''
   \<and> mmuTool (fst (snd (gcode_queuing_hook (chosen 2) ''M109 S215'' (Some {}) True))) \<noteq>
       PyInt 2"
  by (simp add: gcode_queuing_hook_def chosen_def startswith_def timeout_tag_value
      str_int_digits)

text \<open>
  Claim C2 (the code departs from it in its last part). The run
  \<^verbatim>\<open>["MMU - ENABLED", Tx, choose(1), M109 S215]\<close> from the fresh instance: the line
  leaves the status \<^verbatim>\<open>OK\<close> and makes no call; the \<^verbatim>\<open>Tx\<close> command opens the prompt;
  the choice stores the integer 1 in \<^verbatim>\<open>mmuTool\<close>, records \<^verbatim>\<open>T1\<close> and closes the
  prompt; the lower layer is handed \<^verbatim>\<open>M109 S215\<close> and \<^verbatim>\<open>T1\<close>. At the end
  \<^verbatim>\<open>mmuTool\<close> is the string \<^verbatim>\<open>"T1"\<close> that the gate wrote over the integer, and not
  the integer 1.
\<close>

theorem scenario_final_tool_is_command_string:
  "run init [Line ''MMU - ENABLED'' NoFault] = (init, [], [])
   \<and> run init [Line ''MMU - ENABLED'' NoFault, tx] =
       (prompt_open, [SetHold True, Notify Show], [])
   \<and> run init [Line ''MMU - ENABLED'' NoFault, tx, select_tool 1] =
       (chosen 1, [SetHold True, Notify Show, Notify Close, SetHold False], [])
   \<and> mmuTool (chosen 1) = PyInt 1 \<and> selectedFilament (chosen 1) = Some ''T1''
   \<and> run init [Line ''MMU - ENABLED'' NoFault, tx, select_tool 1,
                Outbound ''M109 S215'' (Some {}) True] =
       ((chosen 1)\<lparr> mmuTool := PyStr ''T1'', selectedFilament := None,
                    filamentChangeTriggered := False \<rparr>,
        [SetHold True, Notify Show, Notify Close, SetHold False],
        [''M109 S215'', ''T1''])
   \<and> mmuTool (fst (run init [Line ''MMU - ENABLED'' NoFault, tx, select_tool 1,
                Outbound ''M109 S215'' (Some {}) True])) = PyStr ''T1''
   \<and> mmuTool (fst (run init [Line ''MMU - ENABLED'' NoFault, tx, select_tool 1,
                Outbound ''M109 S215'' (Some {}) True])) \<noteq> PyInt 1"
proof -
  have l: "step (init, [], []) (Line ''MMU - ENABLED'' NoFault) = (init, [], [])"
    by (simp add: gcode_received_hook_def update_nav_def init_def startswith_def)
  have t: "step (init, [], []) tx = (prompt_open, [SetHold True, Notify Show], [])"
    using run_tx by (simp add: run_def)
  have c: "step (prompt_open, [SetHold True, Notify Show], []) (select_tool 1) =
             (chosen 1, [SetHold True, Notify Show, Notify Close, SetHold False], [])"
    by (simp add: select_tool_def choose_on_open)
  have m: "step (chosen 1, [SetHold True, Notify Show, Notify Close, SetHold False], [])
             (Outbound ''M109 S215'' (Some {}) True) =
           ((chosen 1)\<lparr> mmuTool := PyStr ''T1'', selectedFilament := None,
                    filamentChangeTriggered := False \<rparr>,
            [SetHold True, Notify Show, Notify Close, SetHold False],
            [''M109 S215'', ''T1''])"
    by (simp add: gcode_queuing_hook_def chosen_def startswith_def timeout_tag_value
        str_int_digits)
  show ?thesis
    by (simp add: run_def l t c m del: step.simps) (simp add: chosen_def str_int_digits)
qed

section \<open>The prompt session\<close>

text \<open>
  Claim C3. When a prompt is open (the session is active and its timer exists) and the
  timer runs \<^verbatim>\<open>_timeout_prompt\<close>, exactly one command is sent, \<^verbatim>\<open>Tx\<close> tagged with
  the timeout tag; the session is cleaned up: the timer is cancelled, \<^verbatim>\<open>_active\<close> is
  cleared, the close notification is sent and the hold is released; and neither the
  recorded selection nor the filament-change flag is touched, so no substitution is set.
  The gate passes every command that carries the timeout tag through, in any state,
  changing nothing and making no call.
\<close>

theorem timeout_resolves_session:
  assumes "active s" and "timer s = Some tm" and "TIMEOUT_TAG \<in> ts"
    and "s' = s\<lparr> timer := Some (cancel tm), active := False \<rparr>"
  shows "timeout_prompt s =
           (Inr (), s', [SendCommand ''Tx'' {TIMEOUT_TAG}, Notify Close, SetHold False])
       \<and> sent_commands (snd (snd (timeout_prompt s))) = [(''Tx'', {TIMEOUT_TAG})]
       \<and> gcode_queuing_hook g cmd (Some ts) hold = (Inr PassThrough, g, [])
       \<and> timer s' = Some (cancel tm) \<and> finished (cancel tm) \<and> \<not> active s'
       \<and> selectedFilament s' = selectedFilament s
       \<and> filamentChangeTriggered s' = filamentChangeTriggered s"
  using assms
  by (cases tm) (simp add: timeout_prompt_def clean_up_prompt_def gcode_queuing_hook_def)

theorem timeout_resolves_session_witness:
  "active prompt_open \<and> timer prompt_open = Some (Timer 30 False)
   \<and> TIMEOUT_TAG \<in> {TIMEOUT_TAG}
   \<and> timeout_prompt prompt_open =
       (Inr (), init\<lparr> active := False, timer := Some (Timer 30 True) \<rparr>,
        [SendCommand ''Tx'' {TIMEOUT_TAG}, Notify Close, SetHold False])
   \<and> gcode_queuing_hook (init\<lparr> active := False, timer := Some (Timer 30 True) \<rparr>)
        ''Tx'' (Some {TIMEOUT_TAG}) True =
       (Inr PassThrough, init\<lparr> active := False, timer := Some (Timer 30 True) \<rparr>, [])
   \<and> selectedFilament (init\<lparr> active := False, timer := Some (Timer 30 True) \<rparr>) = None
   \<and> filamentChangeTriggered (init\<lparr> active := False, timer := Some (Timer 30 True) \<rparr>) = False"
proof -
  have h: "active prompt_open" "timer prompt_open = Some (Timer 30 False)"
    "TIMEOUT_TAG \<in> {TIMEOUT_TAG}"
    by (simp_all add: prompt_open_def)
  from timeout_resolves_session [OF h refl,
      of "init\<lparr> active := False, timer := Some (Timer 30 True) \<rparr>" "''Tx''" True] h
  show ?thesis by (simp add: prompt_open_def init_def)
qed

text \<open>
  What the \<^verbatim>\<open>select\<close> command rejects. It fails, with the fields unchanged and no
  call made, when the permission check fails (403); when no session is active (409 once
  the permission check has passed), which is the case after a session was resolved by
  the timeout or by an earlier choice, so that no further notification or hold release
  is made; and when the choice fails \<^verbatim>\<open>isinstance(choice, int)\<close> or lies outside 0..4.
  An invalid choice on an active session is answered 400 when it is a number; for a
  value that is no number, building the message raises \<^verbatim>\<open>TypeError\<close> instead, which
  is a failure all the same.
\<close>

lemma select_rejected:
  "(\<not> can \<longrightarrow> on_api_command s ''select'' data can = (Inl (Abort 403), s, []))
 \<and> (\<not> active s \<longrightarrow>
      on_api_command s ''select'' data can = (Inl (Abort (if can then 409 else 403)), s, []))
 \<and> (data ''choice'' = Some c \<and> (\<not> isinstance_int c \<or> int_value c < 0 \<or> 4 < int_value c) \<longrightarrow>
      (\<exists>e. on_api_command s ''select'' data can = (Inl e, s, []))
      \<and> (can \<and> active s \<longrightarrow>
           on_api_command s ''select'' data can =
             (Inl (if isinstance_int c \<or> c = PyFloat then Abort 400 else TypeError), s, [])))
 \<and> (timeout_prompt s = (Inr (), s', ev) \<or> on_api_command s ''select'' data0 can0 = (Inr (), s', ev) \<longrightarrow>
      on_api_command s' ''select'' data can = (Inl (Abort (if can then 409 else 403)), s', []))"
proof (intro conjI impI)
  show "on_api_command s ''select'' data can = (Inl (Abort 403), s, [])" if "\<not> can"
    using that by (simp add: on_api_command_def)
  show "on_api_command s ''select'' data can = (Inl (Abort (if can then 409 else 403)), s, [])"
    if "\<not> active s"
    using that by (simp add: on_api_command_def)
  assume c: "data ''choice'' = Some c \<and> (\<not> isinstance_int c \<or> int_value c < 0 \<or> 4 < int_value c)"
  then show "\<exists>e. on_api_command s ''select'' data can = (Inl e, s, [])"
    by (cases c) (auto simp: on_api_command_def)
  show "on_api_command s ''select'' data can =
          (Inl (if isinstance_int c \<or> c = PyFloat then Abort 400 else TypeError), s, [])"
    if "can \<and> active s"
    using that c by (cases c) (auto simp: on_api_command_def)
next
  assume r: "timeout_prompt s = (Inr (), s', ev)
           \<or> on_api_command s ''select'' data0 can0 = (Inr (), s', ev)"
  have "\<not> active s'"
    using r
    by (auto simp: timeout_prompt_def on_api_command_def done_prompt_def clean_up_prompt_def
        split: option.splits if_splits sum.splits)
  then show "on_api_command s' ''select'' data can =
               (Inl (Abort (if can then 409 else 403)), s', [])"
    by (simp add: on_api_command_def)
qed

text \<open>
  The rejections at hand: no permission; no session on the fresh instance; the choices
  5, -1 and the string \<^verbatim>\<open>"2"\<close> on the open prompt; a second choice after the first.
\<close>

lemma select_rejected_examples:
  "on_api_command prompt_open ''select'' [''choice'' \<mapsto> PyInt 1] False =
     (Inl (Abort 403), prompt_open, [])
   \<and> on_api_command init ''select'' [''choice'' \<mapsto> PyInt 1] True = (Inl (Abort 409), init, [])
   \<and> on_api_command prompt_open ''select'' [''choice'' \<mapsto> PyInt 5] True =
     (Inl (Abort 400), prompt_open, [])
   \<and> on_api_command prompt_open ''select'' [''choice'' \<mapsto> PyInt (- 1)] True =
     (Inl (Abort 400), prompt_open, [])
   \<and> on_api_command prompt_open ''select'' [''choice'' \<mapsto> PyStr ''2''] True =
     (Inl TypeError, prompt_open, [])
   \<and> on_api_command prompt_open ''select'' [''choice'' \<mapsto> PyInt 1] True =
     (Inr (), chosen 1, [Notify Close, SetHold False])
   \<and> on_api_command (chosen 1) ''select'' [''choice'' \<mapsto> PyInt 3] True =
     (Inl (Abort 409), chosen 1, [])"
proof -
  have a: "active prompt_open" "\<not> active init"
    by (simp_all add: prompt_open_def init_def)
  have ok: "on_api_command prompt_open ''select'' [''choice'' \<mapsto> PyInt 1] True =
     (Inr (), chosen 1, [Notify Close, SetHold False])"
    by (simp add: choose_on_open)
  from select_rejected [of False prompt_open "[''choice'' \<mapsto> PyInt 1]"]
  have 1: "on_api_command prompt_open ''select'' [''choice'' \<mapsto> PyInt 1] False =
     (Inl (Abort 403), prompt_open, [])" by simp
  from select_rejected [of True init "[''choice'' \<mapsto> PyInt 1]"] a
  have 2: "on_api_command init ''select'' [''choice'' \<mapsto> PyInt 1] True =
     (Inl (Abort 409), init, [])" by simp
  from select_rejected [of True prompt_open "[''choice'' \<mapsto> PyInt 5]" "PyInt 5"] a
  have 3: "on_api_command prompt_open ''select'' [''choice'' \<mapsto> PyInt 5] True =
     (Inl (Abort 400), prompt_open, [])" by simp
  from select_rejected [of True prompt_open "[''choice'' \<mapsto> PyInt (- 1)]" "PyInt (- 1)"] a
  have 4: "on_api_command prompt_open ''select'' [''choice'' \<mapsto> PyInt (- 1)] True =
     (Inl (Abort 400), prompt_open, [])" by simp
  from select_rejected [of True prompt_open "[''choice'' \<mapsto> PyStr ''2'']" "PyStr ''2''"] a
  have 5: "on_api_command prompt_open ''select'' [''choice'' \<mapsto> PyStr ''2''] True =
     (Inl TypeError, prompt_open, [])" by simp
  from select_rejected [of True prompt_open "[''choice'' \<mapsto> PyInt 3]" _ "chosen 1"
      "[Notify Close, SetHold False]" "[''choice'' \<mapsto> PyInt 1]" True] ok
  have 6: "on_api_command (chosen 1) ''select'' [''choice'' \<mapsto> PyInt 3] True =
     (Inl (Abort 409), chosen 1, [])" by simp
  from 1 2 3 4 5 ok 6 show ?thesis by simp
qed

text \<open>
  Claim C4 (the code departs from it for one kind of wrong type). The rejections above
  hold, but a choice of the wrong type is not always rejected: the check
  \<^verbatim>\<open>isinstance(choice, int)\<close> lets the booleans through, since \<^verbatim>\<open>bool\<close> is a subclass
  of \<^verbatim>\<open>int\<close>, and \<^verbatim>\<open>True\<close> compares as 1. On the open prompt the choice \<^verbatim>\<open>True\<close> is
  accepted: \<^verbatim>\<open>mmuTool\<close> becomes \<^verbatim>\<open>True\<close>, the selection \<^verbatim>\<open>"T" + str(True)\<close>, that is
  \<^verbatim>\<open>TTrue\<close>, is recorded with the flag set, and the prompt is closed.
\<close>

theorem select_accepts_boolean:
  "on_api_command prompt_open ''select'' [''choice'' \<mapsto> PyBool True] True =
     (Inr (),
      init\<lparr> active := False, timer := Some (Timer 30 True), mmuTool := PyBool True,
            selectedFilament := Some ''TTrue'', filamentChangeTriggered := True \<rparr>,
      [Notify Close, SetHold False])"
  by (simp add: on_api_command_def done_prompt_def clean_up_prompt_def prompt_open_def init_def)

text \<open>The next \<^verbatim>\<open>M109\<close> command then carries \<^verbatim>\<open>TTrue\<close> to the printer.\<close>

theorem select_accepts_boolean_witness:
  "fst (on_api_command prompt_open ''select'' [''choice'' \<mapsto> PyBool True] True) = Inr ()
   \<and> outbound ''M109 S215''
        (fst (gcode_queuing_hook
           (fst (snd (on_api_command prompt_open ''select'' [''choice'' \<mapsto> PyBool True] True)))
           ''M109 S215'' (Some {}) True)) = [''M109 S215'', ''TTrue'']"
  using select_accepts_boolean
  by (simp add: gcode_queuing_hook_def startswith_def timeout_tag_value init_def)

section \<open>The line classifier and the status tracker\<close>

text \<open>In a table of patterns the first one the line contains gives the status.\<close>

lemma spec_first_match_Some:
  "spec_first_match tbl line = Some st \<longleftrightarrow>
     (\<exists>i < length tbl. contains line (fst (tbl ! i)) \<and> st = snd (tbl ! i)
        \<and> (\<forall>j < i. \<not> contains line (fst (tbl ! j))))"
proof (induction tbl)
  case Nil
  show ?case by simp
next
  case (Cons a tbl)
  obtain pat q where a: "a = (pat, q)" by (cases a)
  show ?case
  proof (cases "contains line pat")
    case True
    have "(\<exists>i < length (a # tbl). contains line (fst ((a # tbl) ! i)) \<and> st = snd ((a # tbl) ! i)
        \<and> (\<forall>j < i. \<not> contains line (fst ((a # tbl) ! j)))) \<longleftrightarrow> st = q"
    proof
      assume "\<exists>i < length (a # tbl). contains line (fst ((a # tbl) ! i)) \<and> st = snd ((a # tbl) ! i)
        \<and> (\<forall>j < i. \<not> contains line (fst ((a # tbl) ! j)))"
      then obtain i where i: "contains line (fst ((a # tbl) ! i))" "st = snd ((a # tbl) ! i)"
        "\<forall>j < i. \<not> contains line (fst ((a # tbl) ! j))" by blast
      have "i = 0"
      proof (rule ccontr)
        assume "i \<noteq> 0"
        then have "0 < i" by simp
        with i(3) have "\<not> contains line (fst ((a # tbl) ! 0))" by blast
        with True a show False by simp
      qed
      with i(2) a show "st = q" by simp
    next
      assume "st = q"
      with True a have "0 < length (a # tbl) \<and> contains line (fst ((a # tbl) ! 0))
        \<and> st = snd ((a # tbl) ! 0)
        \<and> (\<forall>j < 0. \<not> contains line (fst ((a # tbl) ! j)))" by simp
      then show "\<exists>i < length (a # tbl). contains line (fst ((a # tbl) ! i))
        \<and> st = snd ((a # tbl) ! i)
        \<and> (\<forall>j < i. \<not> contains line (fst ((a # tbl) ! j)))" by blast
    qed
    with True a show ?thesis by auto
  next
    case False
    have "(\<exists>i < length (a # tbl). contains line (fst ((a # tbl) ! i)) \<and> st = snd ((a # tbl) ! i)
        \<and> (\<forall>j < i. \<not> contains line (fst ((a # tbl) ! j)))) \<longleftrightarrow>
          (\<exists>i < length tbl. contains line (fst (tbl ! i)) \<and> st = snd (tbl ! i)
        \<and> (\<forall>j < i. \<not> contains line (fst (tbl ! j))))" (is "?L \<longleftrightarrow> ?R")
    proof
      assume ?L
      then obtain i where i: "i < length (a # tbl)" "contains line (fst ((a # tbl) ! i))"
        "st = snd ((a # tbl) ! i)" "\<forall>j < i. \<not> contains line (fst ((a # tbl) ! j))" by blast
      from i(2) False a have "i \<noteq> 0" by (auto intro: ccontr)
      then obtain k where k: "i = Suc k" by (cases i) auto
      have "\<forall>j < k. \<not> contains line (fst (tbl ! j))"
      proof (intro allI impI)
        fix j assume "j < k"
        then have "Suc j < i" using k by simp
        with i(4) have "\<not> contains line (fst ((a # tbl) ! Suc j))" by blast
        then show "\<not> contains line (fst (tbl ! j))" by simp
      qed
      with i k show ?R by auto
    next
      assume ?R
      then obtain i where i: "i < length tbl" "contains line (fst (tbl ! i))"
        "st = snd (tbl ! i)" "\<forall>j < i. \<not> contains line (fst (tbl ! j))" by blast
      have "\<forall>j < Suc i. \<not> contains line (fst ((a # tbl) ! j))"
      proof (intro allI impI)
        fix j assume j: "j < Suc i"
        show "\<not> contains line (fst ((a # tbl) ! j))"
        proof (cases j)
          case 0
          with False a show ?thesis by simp
        next
          case (Suc m)
          with j i(4) show ?thesis by simp
        qed
      qed
      with i have "Suc i < length (a # tbl) \<and> contains line (fst ((a # tbl) ! Suc i))
         \<and> st = snd ((a # tbl) ! Suc i) \<and> (\<forall>j < Suc i. \<not> contains line (fst ((a # tbl) ! j)))"
        by simp
      then show ?L by blast
    qed
    with False a Cons.IH show ?thesis by simp
  qed
qed

text \<open>
  Claim C5. For every received line, \<^verbatim>\<open>gcode_received_hook\<close> does what the ordered
  table of the seven patterns says: the status of the first pattern the line contains
  is passed to \<^verbatim>\<open>_update_nav\<close>; a line that contains none of them leaves the fields
  unchanged and makes no call; and in every case the line is returned as it came.
\<close>

theorem received_hook_classifies:
  "gcode_received_hook s line fault =
     (case spec_classify line of
        None \<Rightarrow> (line, s, [])
      | Some st \<Rightarrow> (line, update_nav s st fault))
   \<and> fst (gcode_received_hook s line fault) = line"
  by (simp add: gcode_received_hook_def spec_classify_def spec_classifier_table_def)

text \<open>
  A line with two patterns takes the status of the one earlier in the table, wherever
  they stand in the line; a line with no pattern changes nothing.
\<close>

theorem received_hook_classifies_witness:
  "gcode_received_hook init ''OO succeeded, paused for user'' NoFault =
     (''OO succeeded, paused for user'', init\<lparr> mmuState := ''PAUSED_USER'' \<rparr>,
      [SettingsSet ''mmuState'' (PyStr ''PAUSED_USER''), SettingsSet ''mmuTool'' (PyStr []),
       SettingsSave, Notify (Nav (PyStr []) ''PAUSED_USER'')])
   \<and> gcode_received_hook init ''ok T:215'' NoFault = (''ok T:215'', init, [])"
proof -
  have 1: "spec_classify ''OO succeeded, paused for user'' = Some ''PAUSED_USER''"
    by (simp add: spec_classify_def spec_classifier_table_def startswith_def)
  have 2: "spec_classify ''ok T:215'' = None"
    by (simp add: spec_classify_def spec_classifier_table_def startswith_def)
  from received_hook_classifies [of init "''OO succeeded, paused for user''" NoFault]
    received_hook_classifies [of init "''ok T:215''" NoFault] 1 2
  show ?thesis by (simp add: update_nav_def init_def)
qed

text \<open>
  Claim C8. \<^verbatim>\<open>_update_nav\<close> called with the status already held changes nothing and
  makes no call. Hence of two calls in a row with the same status the second is such a
  no-op, whatever the first did: together they notify at most once, save the settings
  at most once, and make no settings call but those of the first.
\<close>

theorem update_same_status_noop:
  "update_nav s (mmuState s) fault = (s, [])
   \<and> (case update_nav s st f1 of (s1, e1) \<Rightarrow>
        (case update_nav s1 st f2 of (s2, e2) \<Rightarrow>
           s2 = s1 \<and> e2 = []
           \<and> length (notifications (e1 @ e2)) \<le> 1
           \<and> length (filter (\<lambda>e. e = SettingsSave) (e1 @ e2)) \<le> 1
           \<and> settings_calls (e1 @ e2) = settings_calls e1))"
  by (cases f1) (simp_all add: update_nav_def)

theorem update_same_status_noop_witness:
  "update_nav init ''OK'' NoFault = (init, [])
   \<and> update_nav init ''LOADING'' NoFault =
       (init\<lparr> mmuState := ''LOADING'' \<rparr>,
        [SettingsSet ''mmuState'' (PyStr ''LOADING''), SettingsSet ''mmuTool'' (PyStr []),
         SettingsSave, Notify (Nav (PyStr []) ''LOADING'')])
   \<and> update_nav (init\<lparr> mmuState := ''LOADING'' \<rparr>) ''LOADING'' NoFault =
       (init\<lparr> mmuState := ''LOADING'' \<rparr>, [])"
proof -
  have 1: "update_nav init ''LOADING'' NoFault =
       (init\<lparr> mmuState := ''LOADING'' \<rparr>,
        [SettingsSet ''mmuState'' (PyStr ''LOADING''), SettingsSet ''mmuTool'' (PyStr []),
         SettingsSave, Notify (Nav (PyStr []) ''LOADING'')])"
    by (simp add: update_nav_def init_def)
  have 2: "mmuState init = ''OK''" "mmuState (init\<lparr> mmuState := ''LOADING'' \<rparr>) = ''LOADING''"
    by (simp_all add: init_def)
  from update_same_status_noop [of init NoFault "''LOADING''" NoFault NoFault]
    update_same_status_noop [of "init\<lparr> mmuState := ''LOADING'' \<rparr>" NoFault "''LOADING''" NoFault NoFault]
    1 2
  show ?thesis by simp
qed

section \<open>More on the command gate\<close>

lemma notifications_persist: "notifications (persist s fault) = []"
  by (cases fault) simp_all

lemma notifications_append: "notifications (xs @ ys) = notifications xs @ notifications ys"
  by (induction xs rule: notifications.induct) simp_all

text \<open>
  Claim C6 (as amended). When the gate rewrites an \<^verbatim>\<open>M109\<close> command with the recorded
  selection it makes no call at all: no tracker refresh, no notification; \<^verbatim>\<open>mmuTool\<close>
  changes in the fields only. The changed tool reaches the UI with the next
  \<^verbatim>\<open>_update_nav\<close> to a different status, whose one notification carries the tool beside
  the status; \<^verbatim>\<open>_update_nav\<close> with the unchanged status stays a no-op although the
  tool has changed.
\<close>

theorem rewrite_makes_no_call:
  assumes "selectedFilament s = Some f" and "filamentChangeTriggered s"
    and "startswith cmd ''M109''" and "TIMEOUT_TAG \<notin> ts"
    and "s' = s\<lparr> mmuTool := PyStr f, selectedFilament := None,
                 filamentChangeTriggered := False \<rparr>"
  shows "gcode_queuing_hook s cmd (Some ts) hold = (Inr (Rewrite [cmd, f]), s', [])
       \<and> update_nav s' (mmuState s) fault = (s', [])
       \<and> update_nav s' st fault =
           (if st = mmuState s then (s', [])
            else (s'\<lparr> mmuState := st \<rparr>,
                  persist (s'\<lparr> mmuState := st \<rparr>) fault @ [Notify (Nav (PyStr f) st)]))
       \<and> notifications (snd (update_nav s' st fault)) =
           (if st = mmuState s then [] else [Nav (PyStr f) st])"
  using assms
  by (simp add: gcode_queuing_hook_def update_nav_def Let_def notifications_append
      notifications_persist)

theorem rewrite_makes_no_call_witness:
  "selectedFilament (chosen 1) = Some ''T1'' \<and> filamentChangeTriggered (chosen 1)
   \<and> startswith ''M109 S215'' ''M109'' \<and> TIMEOUT_TAG \<notin> {}
   \<and> gcode_queuing_hook (chosen 1) ''M109 S215'' (Some {}) True =
       (Inr (Rewrite [''M109 S215'', ''T1'']),
        (chosen 1)\<lparr> mmuTool := PyStr ''T1'', selectedFilament := None,
                     filamentChangeTriggered := False \<rparr>, [])
   \<and> notifications (snd (update_nav
        ((chosen 1)\<lparr> mmuTool := PyStr ''T1'', selectedFilament := None,
                     filamentChangeTriggered := False \<rparr>) ''OK'' NoFault)) = []
   \<and> notifications (snd (update_nav
        ((chosen 1)\<lparr> mmuTool := PyStr ''T1'', selectedFilament := None,
                     filamentChangeTriggered := False \<rparr>) ''LOADING'' NoFault)) =
       [Nav (PyStr ''T1'') ''LOADING'']"
proof -
  have h: "selectedFilament (chosen 1) = Some ''T1''" "filamentChangeTriggered (chosen 1)"
    "startswith ''M109 S215'' ''M109''" "TIMEOUT_TAG \<notin> {}"
    by (simp_all add: chosen_def startswith_def str_int_digits)
  have m: "mmuState (chosen 1) = ''OK''"
    by (simp add: chosen_def init_def)
  from rewrite_makes_no_call [OF h refl, of True NoFault "''OK''"]
    rewrite_makes_no_call [OF h refl, of True NoFault "''LOADING''"] h m
  show ?thesis by simp
qed

text \<open>
  Against claim C6 as stated: on the instance that holds the choice 1, the gate rewrites
  \<^verbatim>\<open>M109 S215\<close> and sends no notification, nor makes any other call.
\<close>

theorem rewrite_sends_no_nav_counterexample:
  "fst (gcode_queuing_hook (chosen 1) ''M109 S215'' (Some {}) True) =
     Inr (Rewrite [''M109 S215'', ''T1''])
   \<and> notifications (snd (snd (gcode_queuing_hook (chosen 1) ''M109 S215'' (Some {}) True))) = []
   \<and> snd (snd (gcode_queuing_hook (chosen 1) ''M109 S215'' (Some {}) True)) = []"
  by (simp add: gcode_queuing_hook_def chosen_def startswith_def timeout_tag_value str_int_digits)

text \<open>
  Claim C7 (as amended). When a \<^verbatim>\<open>Tx\<close> command arrives without the timeout tag and
  \<^verbatim>\<open>set_job_on_hold(True)\<close> answers false, no prompt session is opened (the fields are
  unchanged, the hold request is the only call) and the hook returns \<^verbatim>\<open>(None,)\<close>: the
  command is suppressed, not passed through.
\<close>

theorem hold_refused_drops_command:
  assumes "startswith cmd ''Tx''" and "TIMEOUT_TAG \<notin> ts"
  shows "gcode_queuing_hook s cmd (Some ts) False = (Inr Suppress, s, [SetHold True])
       \<and> outbound cmd (fst (gcode_queuing_hook s cmd (Some ts) False)) = []"
  using assms startswith_Tx_not_M109 [OF assms(1)] by (simp add: gcode_queuing_hook_def)

theorem hold_refused_drops_command_witness:
  "startswith ''Tx'' ''Tx'' \<and> TIMEOUT_TAG \<notin> {}
   \<and> gcode_queuing_hook init ''Tx'' (Some {}) False = (Inr Suppress, init, [SetHold True])
   \<and> outbound ''Tx'' (fst (gcode_queuing_hook init ''Tx'' (Some {}) False)) = []"
proof -
  have h: "startswith ''Tx'' ''Tx''" "TIMEOUT_TAG \<notin> {}"
    by (simp_all add: startswith_def)
  from hold_refused_drops_command [OF h, of init] h show ?thesis by simp
qed

text \<open>
  Against claim C7 as stated: with the hold refused the hook's answer for \<^verbatim>\<open>Tx\<close> is
  \<open>Suppress\<close>, which is not \<open>PassThrough\<close>.
\<close>

theorem hold_refused_counterexample:
  "gcode_queuing_hook init ''Tx'' (Some {}) False = (Inr Suppress, init, [SetHold True])
   \<and> fst (gcode_queuing_hook init ''Tx'' (Some {}) False) \<noteq> Inr PassThrough"
  by (simp add: gcode_queuing_hook_def startswith_def timeout_tag_value)

text \<open>
  When the hook does raise although its tags are a collection: a \<^verbatim>\<open>Tx\<close> command
  without the timeout tag, the hold granted, and \<^verbatim>\<open>float(self._timeout)\<close> failing. The
  hold has then been taken and \<^verbatim>\<open>_active\<close> set, with no timer and no notification.
\<close>

lemma tx_float_failure:
  assumes "startswith cmd ''Tx''" and "TIMEOUT_TAG \<notin> ts" and "py_float (timeout s) = Inl e"
  shows "gcode_queuing_hook s cmd (Some ts) True = (Inl e, s\<lparr> active := True \<rparr>, [SetHold True])"
  using assms startswith_Tx_not_M109 [OF assms(1)]
  by (simp add: gcode_queuing_hook_def show_prompt_def Let_def)

text \<open>A timeout of magnitude \<open>2 ^ 1024\<close> or more is such a case.\<close>

lemma tx_huge_timeout:
  assumes "startswith cmd ''Tx''" and "TIMEOUT_TAG \<notin> ts"
    and "timeout s = Some n" and "2 ^ 1024 \<le> \<bar>n\<bar>"
  shows "gcode_queuing_hook s cmd (Some ts) True =
           (Inl OverflowError, s\<lparr> active := True \<rparr>, [SetHold True])"
  using tx_float_failure [OF assms(1,2), of s OverflowError] assms(3)
    float_of_int_overflow [OF assms(4)]
  by simp

text \<open>
  Claim C10. For a command that starts with \<^verbatim>\<open>Tx\<close> or \<^verbatim>\<open>M109\<close> the hook tests
  \<^verbatim>\<open>TIMEOUT_TAG in tags\<close> before it reads or changes anything else: with \<^verbatim>\<open>tags=None\<close>,
  the default of the parameter, the test raises \<^verbatim>\<open>TypeError\<close> in every state, with the
  fields unchanged and no call made. So the hook returns a value for such a command only
  when its tags are a collection. With a collection it returns a value in every case but
  one: a \<^verbatim>\<open>Tx\<close> command without the timeout tag for which the hold is granted and
  \<^verbatim>\<open>float(self._timeout)\<close> raises.
\<close>

theorem tags_none_raises:
  assumes "startswith cmd ''Tx'' \<or> startswith cmd ''M109''"
  shows "gcode_queuing_hook s cmd None hold = (Inl TypeError, s, [])
       \<and> (\<forall>r s' ev. gcode_queuing_hook s cmd tags hold = (Inr r, s', ev) \<longrightarrow> tags \<noteq> None)
       \<and> ((\<exists>r s' ev. gcode_queuing_hook s cmd (Some ts) hold = (Inr r, s', ev)) \<longleftrightarrow>
            \<not> (startswith cmd ''Tx'' \<and> TIMEOUT_TAG \<notin> ts \<and> hold \<and> isl (py_float (timeout s))))"
proof (intro conjI)
  show n: "gcode_queuing_hook s cmd None hold = (Inl TypeError, s, [])"
    using assms by (auto simp: gcode_queuing_hook_def)
  show "\<forall>r s' ev. gcode_queuing_hook s cmd tags hold = (Inr r, s', ev) \<longrightarrow> tags \<noteq> None"
    using n by (cases tags) auto
  show "(\<exists>r s' ev. gcode_queuing_hook s cmd (Some ts) hold = (Inr r, s', ev)) \<longleftrightarrow>
          \<not> (startswith cmd ''Tx'' \<and> TIMEOUT_TAG \<notin> ts \<and> hold \<and> isl (py_float (timeout s)))"
  proof (cases "startswith cmd ''Tx''")
    case True
    note m = startswith_Tx_not_M109 [OF True]
    show ?thesis
    proof (cases "py_float (timeout s)")
      case (Inl e)
      with True m show ?thesis
        by (simp add: gcode_queuing_hook_def show_prompt_def Let_def)
    next
      case (Inr iv)
      with True m show ?thesis
        by (simp add: gcode_queuing_hook_def show_prompt_def Let_def)
    qed
  next
    case False
    with assms show ?thesis
      by (auto simp: gcode_queuing_hook_def split: option.splits)
  qed
qed

text \<open>
  With \<^verbatim>\<open>tags=None\<close> the \<^verbatim>\<open>M109\<close> command raises on the fresh instance and on the one
  that holds a choice; with the empty set of tags the hook returns.
\<close>

theorem tags_none_raises_witness:
  "startswith ''M109 S215'' ''M109''
   \<and> gcode_queuing_hook init ''M109 S215'' None True = (Inl TypeError, init, [])
   \<and> gcode_queuing_hook (chosen 1) ''M109 S215'' None True = (Inl TypeError, chosen 1, [])
   \<and> (\<exists>r s' ev. gcode_queuing_hook init ''M109 S215'' (Some {}) True = (Inr r, s', ev))"
proof -
  have h: "startswith ''M109 S215'' ''M109''"
    by (simp add: startswith_def)
  then have h': "startswith ''M109 S215'' ''Tx'' \<or> startswith ''M109 S215'' ''M109''" ..
  have x: "\<not> startswith ''M109 S215'' ''Tx''"
    by (simp add: startswith_def)
  from tags_none_raises [OF h', of init True _ "{}"]
    tags_none_raises [OF h', of "chosen 1" True _ "{}"] h x
  show ?thesis by simp
qed

section \<open>Resolution, one call after the other\<close>

text \<open>
  When the calls do not overlap, each way of resolving a session shuts out the other: an
  accepted choice leaves the timer cancelled, so that the timer's own check of its
  \<open>finished\<close> event keeps it from running \<^verbatim>\<open>_timeout_prompt\<close>, and leaves the session
  inactive; after \<^verbatim>\<open>_timeout_prompt\<close> the session is inactive, so that a choice is
  refused. Nothing in the source orders calls that do overlap.
\<close>

lemma choice_cancels_timer:
  assumes "on_api_command s ''select'' data can = (Inr (), s', ev)"
  shows "\<exists>t. timer s' = Some t \<and> finished t \<and> \<not> active s'"
proof -
  from assms obtain c where c: "data ''choice'' = Some c"
    and d: "done_prompt (s\<lparr> mmuTool := c \<rparr>) (''T'' @ py_str c) = (Inr (), s', ev)"
    by (auto simp: on_api_command_def split: if_splits option.splits sum.splits)
  from d obtain t where "timer s = Some t"
    and "s' = s\<lparr> mmuTool := c, selectedFilament := Some (''T'' @ py_str c),
                  filamentChangeTriggered := True, timer := Some (cancel t), active := False \<rparr>"
    by (auto simp: done_prompt_def clean_up_prompt_def split: option.splits)
  then show ?thesis by (cases t) simp
qed

lemma timeout_deactivates:
  assumes "timeout_prompt s = (Inr (), s', ev)"
  shows "\<not> active s' \<and> on_api_command s' ''select'' data True = (Inl (Abort 409), s', [])"
proof -
  from assms have "\<not> active s'"
    by (auto simp: timeout_prompt_def clean_up_prompt_def split: option.splits)
  then show ?thesis by (simp add: on_api_command_def)
qed

end
